theory Spec2Isabelle
  imports Main
begin

section \<open>Values of the source language\<close>

text \<open>
  The configuration object \<open>authOptions\<close> holds two \<open>authorize\<close> functions (the
  credential providers \<open>neon-auth\<close> and \<open>credentials\<close>) and the callbacks \<open>signIn\<close>,
  \<open>jwt\<close> and \<open>session\<close>. The first four are asynchronous functions over two
  collaborators, the Prisma client of the local store and the Neon service of the remote
  store, and are embedded here; \<open>session\<close> copies five fields of the token into the
  session object and calls nothing.

  A property of a JavaScript object that may be missing or \<open>null\<close> is a value of
  \<open>'a js\<close>. A thrown value is an \<open>exn\<close>: an \<open>Error\<close> object with its message, or
  anything else.
\<close>

datatype 'a js = Undefined | Null | Val 'a

datatype exn = Error string | NonError

type_synonym ident = nat

text \<open>JavaScript truthiness of a string that may be missing: only a non-empty string passes
  \<open>if (s)\<close>; the result is that string.\<close>

fun truthy_str :: "string js \<Rightarrow> string option" where
  "truthy_str (Val s) = (if s = [] then None else Some s)"
| "truthy_str Undefined = None"
| "truthy_str Null = None"

fun nullable :: "string option \<Rightarrow> string js" where
  "nullable None = Null"
| "nullable (Some s) = Val s"

text \<open>\<open>String.prototype.includes\<close>.\<close>

fun includes_str :: "string \<Rightarrow> string \<Rightarrow> bool" where
  "includes_str [] sub = (sub = [])"
| "includes_str (c # cs) sub = (take (length sub) (c # cs) = sub \<or> includes_str cs sub)"

section \<open>The two stores\<close>

text \<open>Rows of the local store: the \<open>user\<close> and \<open>adminWhitelist\<close> tables, both with a
  unique email column, which is the key the source queries them by. The columns are the
  ones the source reads or writes.\<close>

record user_row =
  user_id :: ident
  user_email :: string
  user_name :: "string option"
  user_image :: "string option"
  user_role :: string
  user_password :: "string option"

record whitelist_row =
  wl_email :: string
  isActive :: bool
  canManageUsers :: bool
  canManageContent :: bool
  canManageSettings :: bool

text \<open>The record the remote store answers \<open>authenticateUser\<close> with.\<close>

record neon_user =
  neon_id :: ident
  neon_email :: string
  neon_name :: "string option"
  neon_role :: string
  databaseRole :: string
  permissions :: string

text \<open>Every call that leaves the process, with its arguments.\<close>

datatype event =
    UserFindUnique string
  | UserUpsert string "string js" "string js" string
  | WhitelistFindUnique string
  | GetNeonAuthService
  | NeonAuthenticateUser string "string option"
  | NeonCreateUser string "string option" string
  | NeonDisconnect
  | ImportBcryptjs
  | BcryptCompare string string

text \<open>
  The world the functions run in. \<open>users\<close> and \<open>adminWhitelist\<close> are the two tables of
  the local store, keyed by the email exactly as stored; \<open>nextId\<close> stands for the store's
  generator of default ids. \<open>neonAnswer\<close> is what the remote store answers a lookup with,
  \<open>bcryptCompare\<close> is the comparison of a password with a hash. \<open>log\<close> records the
  external calls in the order they were made. \<open>faults\<close> is the schedule of failures:
  \<open>faults w 0\<close> is the outcome of the next external call (\<open>None\<close>: it succeeds,
  \<open>Some x\<close>: it throws \<open>x\<close>), \<open>faults w 1\<close> of the one after, and so on.
\<close>

record world =
  users :: "string \<rightharpoonup> user_row"
  adminWhitelist :: "string \<rightharpoonup> whitelist_row"
  nextId :: ident
  neonAnswer :: "string \<Rightarrow> string option \<Rightarrow> neon_user option"
  bcryptCompare :: "string \<Rightarrow> string \<Rightarrow> bool"
  faults :: "nat \<Rightarrow> exn option"
  log :: "event list"

section \<open>Asynchronous functions that may throw\<close>

type_synonym 'a io = "world \<Rightarrow> (exn + 'a) \<times> world"

definition resolve :: "'a \<Rightarrow> 'a io" where
  "resolve x w = (Inr x, w)"

definition throw :: "exn \<Rightarrow> 'a io" where
  "throw e w = (Inl e, w)"

text \<open>\<open>const x = await m; f x\<close>: a rejection of \<open>m\<close> skips \<open>f\<close>.\<close>

definition await :: "'a io \<Rightarrow> ('a \<Rightarrow> 'b io) \<Rightarrow> 'b io" where
  "await m f w = (case m w of (Inl e, w') \<Rightarrow> (Inl e, w') | (Inr x, w') \<Rightarrow> f x w')"

text \<open>\<open>try { m } catch (error) { h error }\<close>.\<close>

definition try_catch :: "'a io \<Rightarrow> (exn \<Rightarrow> 'a io) \<Rightarrow> 'a io" where
  "try_catch m h w = (case m w of (Inl e, w') \<Rightarrow> h e w' | (Inr x, w') \<Rightarrow> (Inr x, w'))"

text \<open>\<open>try { m } finally { fin }\<close>: \<open>fin\<close> runs on every completion of \<open>m\<close>; when \<open>fin\<close>
  throws, its exception replaces the completion of \<open>m\<close>.\<close>

definition try_finally :: "'a io \<Rightarrow> unit io \<Rightarrow> 'a io" where
  "try_finally m fin w =
     (case m w of (r, w') \<Rightarrow>
        (case fin w' of (Inl e, w'') \<Rightarrow> (Inl e, w'') | (Inr _, w'') \<Rightarrow> (r, w'')))"

text \<open>An external call: it is logged, it consumes the head of the failure schedule, and
  it throws when the schedule says so.\<close>

definition call :: "event \<Rightarrow> unit io" where
  "call ev w =
     (let w' = w\<lparr>log := log w @ [ev], faults := (\<lambda>n. faults w (Suc n))\<rparr>
      in case faults w 0 of Some x \<Rightarrow> (Inl x, w') | None \<Rightarrow> (Inr (), w'))"

subsection \<open>The local store (Prisma client)\<close>

definition user_findUnique :: "string \<Rightarrow> user_row option io" where
  "user_findUnique email = await (call (UserFindUnique email)) (\<lambda>_ w. (Inr (users w email), w))"

definition adminWhitelist_findUnique :: "string \<Rightarrow> whitelist_row option io" where
  "adminWhitelist_findUnique email =
     await (call (WhitelistFindUnique email)) (\<lambda>_ w. (Inr (adminWhitelist w email), w))"

text \<open>In the data of a Prisma write, \<open>undefined\<close> leaves the column alone (on create: at
  its default, \<open>null\<close>), \<open>null\<close> clears it.\<close>

fun set_column :: "string js \<Rightarrow> string option \<Rightarrow> string option" where
  "set_column Undefined old = old"
| "set_column Null old = None"
| "set_column (Val s) old = Some s"

text \<open>The row an upsert leaves behind: the \<open>update\<close> data applied to the existing row, or
  the \<open>create\<close> data with the defaults of the other columns (a fresh id, no password).\<close>

definition upsert_row ::
  "user_row option \<Rightarrow> ident \<Rightarrow> string \<Rightarrow> string js \<Rightarrow> string js \<Rightarrow> string \<Rightarrow> user_row" where
  "upsert_row existing fresh email name img role =
     (case existing of
        Some u \<Rightarrow> u\<lparr>user_name := set_column name (user_name u),
                     user_image := set_column img (user_image u),
                     user_role := role\<rparr>
      | None \<Rightarrow> \<lparr>user_id = fresh, user_email = email,
                  user_name = set_column name None,
                  user_image = set_column img None,
                  user_role = role, user_password = None\<rparr>)"

text \<open>\<open>prisma.user.upsert({where: {email}, update: {name, image, role},
  create: {email, name, image, role}})\<close>, one atomic insert-or-update by the unique email.\<close>

definition user_upsert :: "string \<Rightarrow> string js \<Rightarrow> string js \<Rightarrow> string \<Rightarrow> user_row io" where
  "user_upsert email name img role =
     await (call (UserUpsert email name img role)) (\<lambda>_ w.
       (let u' = upsert_row (users w email) (nextId w) email name img role
        in (Inr u', w\<lparr>users := (users w)(email \<mapsto> u'),
                      nextId := (if users w email = None then Suc (nextId w) else nextId w)\<rparr>)))"

subsection \<open>The remote store (Neon service) and bcryptjs\<close>

text \<open>
  Modelled from the spec: the remote-store client (\<open>@/lib/neon-auth\<close>) is not among the
  sources. Its interface is \<open>authenticateUser(email, password?) -> RemoteUserRecord |
  absent\<close>, \<open>createUser(email, name?, role) -> RemoteUserRecord\<close> and \<open>disconnect()\<close>,
  connection-oriented. Each of them, and \<open>getNeonAuthService()\<close> that hands out the
  client, is an external call that may fail. The answer of \<open>authenticateUser\<close> is the
  parameter \<open>neonAnswer\<close> of the world; the callers discard what \<open>createUser\<close> and
  \<open>disconnect\<close> return, so these two are visible in the log only.
\<close>

definition getNeonAuthService :: "unit io" where
  "getNeonAuthService = call GetNeonAuthService"

definition neon_authenticateUser :: "string \<Rightarrow> string option \<Rightarrow> neon_user option io" where
  "neon_authenticateUser email password =
     await (call (NeonAuthenticateUser email password))
       (\<lambda>_ w. (Inr (neonAnswer w email password), w))"

definition neon_createUser :: "string \<Rightarrow> string option \<Rightarrow> string \<Rightarrow> unit io" where
  "neon_createUser email name role = call (NeonCreateUser email name role)"

definition neon_disconnect :: "unit io" where
  "neon_disconnect = call NeonDisconnect"

definition import_bcryptjs :: "unit io" where
  "import_bcryptjs = call ImportBcryptjs"

definition bcrypt_compare :: "string \<Rightarrow> string \<Rightarrow> bool io" where
  "bcrypt_compare password hash =
     await (call (BcryptCompare password hash)) (\<lambda>_ w. (Inr (bcryptCompare w password hash), w))"

section \<open>The token-refresh callback\<close>

text \<open>The user object NextAuth passes around: what a provider's \<open>authorize\<close> returns and
  what \<open>signIn\<close> and \<open>jwt\<close> receive.\<close>

record next_user =
  nu_id :: ident
  nu_email :: "string js"
  nu_name :: "string js"
  nu_image :: "string js"
  neonRole :: "string option"
  nu_permissions :: "string option"

record token =
  tok_id :: "ident option"
  tok_email :: "string js"
  tok_isAdmin :: "bool option"
  tok_canManageUsers :: "bool option"
  tok_canManageContent :: "bool option"
  tok_canManageSettings :: "bool option"

text \<open>\<open>callbacks.jwt({token, user})\<close>. \<open>x?.f ?? false\<close> on a row that may be absent is
  the \<open>case\<close> on the option.\<close>

definition jwt :: "token \<Rightarrow> next_user option \<Rightarrow> token io" where
  "jwt token0 user =
     (let token = (case user of Some u \<Rightarrow> token0\<lparr>tok_id := Some (nu_id u)\<rparr> | None \<Rightarrow> token0)
      in case truthy_str (tok_email token) of
           Some email \<Rightarrow>
             await (user_findUnique email) (\<lambda>userData.
             await (adminWhitelist_findUnique email) (\<lambda>adminEntry.
               (let hasAdminRole =
                      (case userData of Some u \<Rightarrow> user_role u = ''ADMIN'' | None \<Rightarrow> False);
                    isInActiveWhitelist =
                      (case adminEntry of Some a \<Rightarrow> isActive a | None \<Rightarrow> False);
                    isAdmin = (hasAdminRole \<and> isInActiveWhitelist)
                in resolve (token
                     \<lparr>tok_isAdmin := Some isAdmin,
                      tok_canManageUsers := Some (if isAdmin
                         then (case adminEntry of Some a \<Rightarrow> canManageUsers a | None \<Rightarrow> False)
                         else False),
                      tok_canManageContent := Some (if isAdmin
                         then (case adminEntry of Some a \<Rightarrow> canManageContent a | None \<Rightarrow> False)
                         else False),
                      tok_canManageSettings := Some (if isAdmin
                         then (case adminEntry of Some a \<Rightarrow> canManageSettings a | None \<Rightarrow> False)
                         else False)\<rparr>))))
         | None \<Rightarrow> resolve token)"

section \<open>The credential providers\<close>

record credentials =
  cred_email :: "string js"
  cred_password :: "string js"

text \<open>\<open>!credentials?.email || !credentials?.password\<close> is false exactly when both are
  non-empty strings; then the result is the pair of them.\<close>

definition present :: "credentials option \<Rightarrow> (string \<times> string) option" where
  "present credentials =
     (case credentials of
        None \<Rightarrow> None
      | Some c \<Rightarrow>
          (case truthy_str (cred_email c) of
             None \<Rightarrow> None
           | Some email \<Rightarrow>
               (case truthy_str (cred_password c) of
                  None \<Rightarrow> None
                | Some password \<Rightarrow> Some (email, password))))"

text \<open>\<open>authorize\<close> of the provider with id \<open>neon-auth\<close>. The service is obtained before
  the \<open>try\<close>; the \<open>catch\<close> logs to the console and rethrows; the \<open>finally\<close> disconnects.\<close>

definition authorize_neon_auth :: "credentials option \<Rightarrow> next_user io" where
  "authorize_neon_auth credentials =
     (case present credentials of
        None \<Rightarrow> throw (Error ''Email and password are required'')
      | Some (email, password) \<Rightarrow>
          await getNeonAuthService (\<lambda>_.
            try_finally
              (try_catch
                 (await (neon_authenticateUser email (Some password)) (\<lambda>neonUser.
                    (case neonUser of
                       None \<Rightarrow> throw (Error ''Invalid credentials'')
                     | Some n \<Rightarrow>
                         if neon_role n \<noteq> ''ADMIN''
                         then throw (Error ''Admin access required'')
                         else resolve \<lparr>nu_id = neon_id n, nu_email = Val (neon_email n),
                                nu_name = nullable (neon_name n), nu_image = Null,
                                neonRole = Some (databaseRole n),
                                nu_permissions = Some (permissions n)\<rparr>)))
                 (\<lambda>error. throw error))
              neon_disconnect))"

text \<open>\<open>authorize\<close> of the provider named \<open>credentials\<close>. \<open>!user.password\<close> holds for a
  missing hash and for an empty one.\<close>

definition authorize_credentials :: "credentials option \<Rightarrow> next_user io" where
  "authorize_credentials credentials =
     (case present credentials of
        None \<Rightarrow> throw (Error ''Email and password are required'')
      | Some (email, password) \<Rightarrow>
          try_catch
            (await import_bcryptjs (\<lambda>_.
             await (user_findUnique email) (\<lambda>user.
               (case user of
                  None \<Rightarrow> throw (Error ''Invalid credentials'')
                | Some u \<Rightarrow>
                    (case truthy_str (nullable (user_password u)) of
                       None \<Rightarrow> throw (Error ''Invalid credentials'')
                     | Some hash \<Rightarrow>
                         await (bcrypt_compare password hash) (\<lambda>passwordMatch.
                           if \<not> passwordMatch then throw (Error ''Invalid credentials'')
                           else if user_role u \<noteq> ''ADMIN''
                           then throw (Error ''Admin access required'')
                           else
                             await (adminWhitelist_findUnique email) (\<lambda>adminEntry.
                               (case adminEntry of
                                  None \<Rightarrow> throw (Error ''Admin access not authorized'')
                                | Some a \<Rightarrow>
                                    if \<not> isActive a
                                    then throw (Error ''Admin access not authorized'')
                                    else resolve \<lparr>nu_id = user_id u,
                                           nu_email = Val (user_email u),
                                           nu_name = nullable (user_name u),
                                           nu_image = nullable (user_image u),
                                           neonRole = None,
                                           nu_permissions = None\<rparr>))))))))
            (\<lambda>error.
               (case error of
                  Error message \<Rightarrow>
                    if includes_str message ''Cannot resolve module''
                    then throw (Error
                      ''Password authentication not available. Please install dependencies.'')
                    else throw error
                | NonError \<Rightarrow> throw error)))"

section \<open>The sign-in callback\<close>

record account =
  provider :: string

text \<open>\<open>callbacks.signIn({user, account, profile})\<close>; \<open>profile\<close> is not read. The whole
  remote step, \<open>disconnect\<close> included, is the body of one \<open>try\<close> whose \<open>catch\<close> logs to
  the console and continues.\<close>

definition signIn :: "next_user \<Rightarrow> account option \<Rightarrow> bool io" where
  "signIn user account =
     (case (if (case account of Some a \<Rightarrow> provider a = ''google'' | None \<Rightarrow> False)
            then truthy_str (nu_email user) else None) of
        Some email \<Rightarrow>
          await (adminWhitelist_findUnique email) (\<lambda>adminEntry.
            (let isAdmin = (case adminEntry of Some a \<Rightarrow> isActive a | None \<Rightarrow> False);
                 userRole = (if isAdmin then ''ADMIN'' else ''USER'')
             in await (user_upsert email (nu_name user) (nu_image user) userRole) (\<lambda>_.
                await (try_catch
                         (await getNeonAuthService (\<lambda>_.
                          await (neon_authenticateUser email None) (\<lambda>existingNeonUser.
                          await (case existingNeonUser of
                                   None \<Rightarrow>
                                     neon_createUser email (truthy_str (nu_name user)) userRole
                                 | Some _ \<Rightarrow> resolve ())
                            (\<lambda>_. neon_disconnect))))
                         (\<lambda>error. resolve ()))
                  (\<lambda>_. resolve True))))
      | None \<Rightarrow> resolve True)"

text \<open>The events a function adds to the log of the world it starts in.\<close>

definition new_events :: "world \<Rightarrow> world \<Rightarrow> event list" where
  "new_events w w' = drop (length (log w)) (log w')"

text \<open>The email an external call is keyed by, for the calls that key into a store.\<close>

fun event_key :: "event \<Rightarrow> string option" where
  "event_key (UserFindUnique email) = Some email"
| "event_key (UserUpsert email name img role) = Some email"
| "event_key (WhitelistFindUnique email) = Some email"
| "event_key (NeonAuthenticateUser email password) = Some email"
| "event_key (NeonCreateUser email name role) = Some email"
| "event_key GetNeonAuthService = None"
| "event_key NeonDisconnect = None"
| "event_key ImportBcryptjs = None"
| "event_key (BcryptCompare password hash) = None"

definition keyed_by :: "string \<Rightarrow> event list \<Rightarrow> bool" where
  "keyed_by email evs = list_all (\<lambda>ev. event_key ev \<in> {None, Some email}) evs"

text \<open>\<open>emits P m\<close>: from every world, \<open>m\<close> only appends to the log, and only events that
  satisfy \<open>P\<close>.\<close>

definition emits :: "(event \<Rightarrow> bool) \<Rightarrow> 'a io \<Rightarrow> bool" where
  "emits P m = (\<forall>w. \<exists>evs. log (snd (m w)) = log w @ evs \<and> list_all P evs)"

section \<open>Fixtures\<close>

definition admin_row :: user_row where
  "admin_row = \<lparr>user_id = 1, user_email = ''a@x.com'', user_name = Some ''Ada'',
     user_image = None, user_role = ''ADMIN'', user_password = Some ''$2a$hash''\<rparr>"

definition active_entry :: whitelist_row where
  "active_entry = \<lparr>wl_email = ''a@x.com'', isActive = True, canManageUsers = True,
     canManageContent = False, canManageSettings = False\<rparr>"

definition inactive_entry :: whitelist_row where
  "inactive_entry = active_entry\<lparr>isActive := False, canManageContent := True\<rparr>"

text \<open>A healthy world with one administrator, and the same world with the whitelist
  entry switched off but its flags still set.\<close>

definition world0 :: world where
  "world0 = \<lparr>users = [''a@x.com'' \<mapsto> admin_row],
     adminWhitelist = [''a@x.com'' \<mapsto> active_entry],
     nextId = 2,
     neonAnswer = (\<lambda>email password. None),
     bcryptCompare = (\<lambda>password hash. hash = ''$2a$hash'' \<and> password = ''secret''),
     faults = (\<lambda>n. None),
     log = []\<rparr>"

definition world_revoked :: world where
  "world_revoked = world0\<lparr>adminWhitelist := [''a@x.com'' \<mapsto> inactive_entry]\<rparr>"

definition token_a :: token where
  "token_a = \<lparr>tok_id = Some 1, tok_email = Val ''a@x.com'', tok_isAdmin = None,
     tok_canManageUsers = None, tok_canManageContent = None, tok_canManageSettings = None\<rparr>"

text \<open>The local store fails at the first read, or at the second.\<close>

definition world_down :: world where
  "world_down = world0\<lparr>faults := (\<lambda>n. if n = 0 then Some (Error ''connection refused'') else None)\<rparr>"

definition world_down2 :: world where
  "world_down2 = world0\<lparr>faults := (\<lambda>n. if n = 1 then Some (Error ''connection refused'') else None)\<rparr>"

text \<open>The local store is healthy (the first two calls succeed) and every later call,
  which in \<open>signIn\<close> is a call of the remote store, fails.\<close>

definition world_remote_down :: world where
  "world_remote_down =
     world0\<lparr>faults := (\<lambda>n. if 2 \<le> n then Some (Error ''remote store unreachable'') else None)\<rparr>"

text \<open>The remote store hands out its service and fails at \<open>authenticateUser\<close>.\<close>

definition world_remote_lookup_fails :: world where
  "world_remote_lookup_fails =
     world0\<lparr>faults := (\<lambda>n. if n = 3 then Some (Error ''remote store unreachable'') else None)\<rparr>"

definition google :: account where
  "google = \<lparr>provider = ''google''\<rparr>"

definition bob :: next_user where
  "bob = \<lparr>nu_id = 7, nu_email = Val ''b@x.com'', nu_name = Val ''Bob'', nu_image = Null,
     neonRole = None, nu_permissions = None\<rparr>"

definition nobody :: next_user where
  "nobody = bob\<lparr>nu_email := Null\<rparr>"

definition token_upper :: token where
  "token_upper = token_a\<lparr>tok_email := Val ''A@x.com''\<rparr>"

text \<open>A remote store that knows the administrator.\<close>

definition neon_admin :: neon_user where
  "neon_admin = \<lparr>neon_id = 11, neon_email = ''a@x.com'', neon_name = Some ''Ada'',
     neon_role = ''ADMIN'', databaseRole = ''db_admin'', permissions = ''all''\<rparr>"

definition world_neon :: world where
  "world_neon = world0\<lparr>neonAnswer :=
     (\<lambda>email password. if email = ''a@x.com'' \<and> password = Some ''secret''
        then Some neon_admin
        else if email = ''u@x.com'' \<and> password = Some ''hunter2''
        then Some (neon_admin\<lparr>neon_email := ''u@x.com'', neon_role := ''USER''\<rparr>)
        else None)\<rparr>"

definition creds_admin :: credentials where
  "creds_admin = \<lparr>cred_email = Val ''a@x.com'', cred_password = Val ''secret''\<rparr>"

definition creds_user :: credentials where
  "creds_user = \<lparr>cred_email = Val ''u@x.com'', cred_password = Val ''hunter2''\<rparr>"

definition creds_empty :: credentials where
  "creds_empty = \<lparr>cred_email = Val ''a@x.com'', cred_password = Val ''''\<rparr>"

definition token_b :: token where
  "token_b = token_a\<lparr>tok_email := Val ''b@x.com''\<rparr>"

section \<open>Properties of the token refresh\<close>

lemmas io_defs = await_def resolve_def throw_def try_catch_def try_finally_def call_def
  user_findUnique_def adminWhitelist_findUnique_def user_upsert_def getNeonAuthService_def
  neon_authenticateUser_def neon_createUser_def neon_disconnect_def import_bcryptjs_def
  bcrypt_compare_def

lemma jwt_token_email:
  "truthy_str (tok_email tok) = Some email \<Longrightarrow>
   truthy_str (tok_email (case user of Some u \<Rightarrow> tok\<lparr>tok_id := Some (nu_id u)\<rparr> | None \<Rightarrow> tok))
     = Some email"
  by (cases user) simp_all

text \<open>
  C1. When the token carries an email and the two reads succeed, the refreshed token has
  \<open>isAdmin\<close> set, and it is true exactly when the local record of that email exists with
  role ADMIN and the whitelist entry of that email exists and is active. So a missing
  record or a missing entry gives false, and the role alone is never enough.
\<close>

theorem jwt_isAdmin_iff:
  assumes "truthy_str (tok_email tok) = Some email"
    and "faults w 0 = None" and "faults w (Suc 0) = None"
  shows "\<exists>t' w'. jwt tok user w = (Inr t', w') \<and>
     tok_isAdmin t' = Some ((\<exists>u. users w email = Some u \<and> user_role u = ''ADMIN'') \<and>
                            (\<exists>a. adminWhitelist w email = Some a \<and> isActive a))"
  using assms(2,3) jwt_token_email [OF assms(1), of user]
  by (cases "users w email"; cases "adminWhitelist w email")
     (simp_all add: jwt_def Let_def io_defs)

theorem jwt_isAdmin_iff_witness:
  "truthy_str (tok_email token_a) = Some ''a@x.com'' \<and>
   faults world0 0 = None \<and> faults world0 (Suc 0) = None \<and>
   (\<exists>t' w'. jwt token_a None world0 = (Inr t', w') \<and> tok_isAdmin t' = Some True) \<and>
   (\<exists>t' w'. jwt token_a None world_revoked = (Inr t', w') \<and> tok_isAdmin t' = Some False)"
proof -
  have h: "truthy_str (tok_email token_a) = Some ''a@x.com''"
    by (simp add: token_a_def)
  have f: "faults world0 0 = None" "faults world0 (Suc 0) = None"
    "faults world_revoked 0 = None" "faults world_revoked (Suc 0) = None"
    by (simp_all add: world0_def world_revoked_def)
  show ?thesis
    using h f jwt_isAdmin_iff [OF h f(1,2), of None] jwt_isAdmin_iff [OF h f(3,4), of None]
    by (simp add: world0_def world_revoked_def admin_row_def active_entry_def
          inactive_entry_def)
qed

text \<open>
  C2. Whenever a refresh for a token that carries an email returns a token whose \<open>isAdmin\<close>
  is false, the three granular permissions of that token are false, whatever the flags of
  the whitelist row are.
\<close>

theorem jwt_not_admin_no_permissions:
  assumes "truthy_str (tok_email tok) = Some email"
    and "jwt tok user w = (Inr t', w')"
    and "tok_isAdmin t' = Some False"
  shows "tok_canManageUsers t' = Some False \<and> tok_canManageContent t' = Some False \<and>
         tok_canManageSettings t' = Some False"
  using assms(2,3) jwt_token_email [OF assms(1), of user]
  by (auto simp add: jwt_def Let_def io_defs split: option.splits sum.splits prod.splits)

theorem jwt_not_admin_no_permissions_witness:
  "truthy_str (tok_email token_a) = Some ''a@x.com'' \<and>
   adminWhitelist world_revoked ''a@x.com'' = Some inactive_entry \<and>
   canManageUsers inactive_entry \<and> canManageContent inactive_entry \<and>
   (\<exists>t' w'. jwt token_a None world_revoked = (Inr t', w') \<and>
      tok_isAdmin t' = Some False \<and> tok_canManageUsers t' = Some False \<and>
      tok_canManageContent t' = Some False \<and> tok_canManageSettings t' = Some False)"
proof -
  have h: "truthy_str (tok_email token_a) = Some ''a@x.com''"
    by (simp add: token_a_def)
  obtain t' w' where r: "jwt token_a None world_revoked = (Inr t', w')"
    and a: "tok_isAdmin t' = Some False"
    by (simp add: jwt_def Let_def io_defs token_a_def world_revoked_def world0_def
          inactive_entry_def active_entry_def admin_row_def)
  from jwt_not_admin_no_permissions [OF h r a] r a h show ?thesis
    by (simp add: world_revoked_def world0_def inactive_entry_def active_entry_def)
qed

text \<open>
  C5, counterexample. The callback has no handler around its two reads: when the first
  read of the local store fails, or the second, the callback fails with that error
  instead of returning a negative verdict.
\<close>

theorem jwt_read_failure_counterexample:
  "fst (jwt token_a None world_down) = Inl (Error ''connection refused'') \<and>
   fst (jwt token_a None world_down2) = Inl (Error ''connection refused'')"
  by (simp add: jwt_def Let_def io_defs token_a_def world_down_def world_down2_def world0_def)

text \<open>
  C5, amended. For a token that carries an email: when both reads succeed and the local
  record or the whitelist entry is absent, the callback returns, without error, a token
  with \<open>isAdmin\<close> false and the three permissions false; when the first read fails, or
  the second after a successful first, the callback fails with the error of that read.
\<close>

theorem jwt_absent_negative_failure_propagates:
  assumes "truthy_str (tok_email tok) = Some email"
  shows "(faults w 0 = None \<and> faults w (Suc 0) = None \<and>
            (users w email = None \<or> adminWhitelist w email = None) \<longrightarrow>
          (\<exists>t' w'. jwt tok user w = (Inr t', w') \<and> tok_isAdmin t' = Some False \<and>
             tok_canManageUsers t' = Some False \<and> tok_canManageContent t' = Some False \<and>
             tok_canManageSettings t' = Some False)) \<and>
         (faults w 0 = Some x \<longrightarrow> fst (jwt tok user w) = Inl x) \<and>
         (faults w 0 = None \<and> faults w (Suc 0) = Some x \<longrightarrow> fst (jwt tok user w) = Inl x)"
  using jwt_token_email [OF assms, of user]
  by (auto simp add: jwt_def Let_def io_defs split: option.splits)

theorem jwt_absent_negative_failure_propagates_witness:
  "truthy_str (tok_email token_b) = Some ''b@x.com'' \<and>
   faults world0 0 = None \<and> faults world0 (Suc 0) = None \<and> users world0 ''b@x.com'' = None \<and>
   (\<exists>t' w'. jwt token_b None world0 = (Inr t', w') \<and> tok_isAdmin t' = Some False \<and>
      tok_canManageUsers t' = Some False \<and> tok_canManageContent t' = Some False \<and>
      tok_canManageSettings t' = Some False) \<and>
   faults world_down 0 = Some (Error ''connection refused'') \<and>
   fst (jwt token_b None world_down) = Inl (Error ''connection refused'') \<and>
   faults world_down2 0 = None \<and>
   faults world_down2 (Suc 0) = Some (Error ''connection refused'') \<and>
   fst (jwt token_b None world_down2) = Inl (Error ''connection refused'')"
proof -
  have h: "truthy_str (tok_email token_b) = Some ''b@x.com''"
    by (simp add: token_b_def token_a_def)
  have f: "faults world0 0 = None" "faults world0 (Suc 0) = None"
    "users world0 ''b@x.com'' = None"
    "faults world_down 0 = Some (Error ''connection refused'')"
    "faults world_down2 0 = None"
    "faults world_down2 (Suc 0) = Some (Error ''connection refused'')"
    by (simp_all add: world0_def world_down_def world_down2_def)
  from jwt_absent_negative_failure_propagates [OF h, where w = world0 and user = None]
    jwt_absent_negative_failure_propagates [OF h, where w = world_down and user = None
      and x = "Error ''connection refused''"]
    jwt_absent_negative_failure_propagates [OF h, where w = world_down2 and user = None
      and x = "Error ''connection refused''"]
    h f
  show ?thesis by simp
qed

section \<open>Properties of the sign-in callback\<close>

text \<open>
  C10. When the user object carries no email (it is missing, \<open>null\<close> or empty), the
  callback accepts and leaves the world as it was: nothing is looked up, nothing is
  written and the remote store is not called, for a Google account as for any other.
\<close>

theorem signIn_no_email_skips:
  assumes "truthy_str (nu_email user) = None"
  shows "signIn user account w = (Inr True, w)"
  using assms by (simp add: signIn_def resolve_def)

theorem signIn_no_email_skips_witness:
  "truthy_str (nu_email nobody) = None \<and> provider google = ''google'' \<and>
   signIn nobody (Some google) world0 = (Inr True, world0) \<and>
   new_events world0 (snd (signIn nobody (Some google) world0)) = []"
proof -
  have h: "truthy_str (nu_email nobody) = None"
    by (simp add: nobody_def bob_def)
  from signIn_no_email_skips [OF h, of "Some google" world0] h show ?thesis
    by (simp add: google_def new_events_def)
qed

text \<open>
  C3. For a Google sign-in with an email, when the two calls of the local store succeed,
  the callback accepts whatever the calls of the remote store do afterwards (the failure
  schedule from the third call on is arbitrary), and the local record of that email is
  the upserted one: its role follows the whitelist, its name and image are those of the
  principal. The first two calls made are the whitelist lookup and the upsert.
\<close>

theorem signIn_remote_failure_tolerated:
  assumes "provider a = ''google''" and "truthy_str (nu_email user) = Some email"
    and "faults w 0 = None" and "faults w (Suc 0) = None"
  shows "\<exists>w' u. signIn user (Some a) w = (Inr True, w') \<and>
           users w' email = Some u \<and>
           user_role u = (if (\<exists>e. adminWhitelist w email = Some e \<and> isActive e)
                          then ''ADMIN'' else ''USER'') \<and>
           user_name u = set_column (nu_name user)
                           (case users w email of Some u0 \<Rightarrow> user_name u0 | None \<Rightarrow> None) \<and>
           user_image u = set_column (nu_image user)
                           (case users w email of Some u0 \<Rightarrow> user_image u0 | None \<Rightarrow> None) \<and>
           take 2 (new_events w w') =
             [WhitelistFindUnique email,
              UserUpsert email (nu_name user) (nu_image user) (user_role u)]"
  using assms
  by (auto simp add: signIn_def Let_def io_defs new_events_def upsert_row_def
        split: option.splits sum.splits)

theorem signIn_remote_failure_tolerated_witness:
  "provider google = ''google'' \<and> truthy_str (nu_email bob) = Some ''b@x.com'' \<and>
   faults world_remote_down 0 = None \<and> faults world_remote_down (Suc 0) = None \<and>
   faults world_remote_down 2 = Some (Error ''remote store unreachable'') \<and>
   users world_remote_down ''b@x.com'' = None \<and>
   (\<exists>w' u. signIn bob (Some google) world_remote_down = (Inr True, w') \<and>
      users w' ''b@x.com'' = Some u \<and> user_role u = ''USER'' \<and> user_name u = Some ''Bob'' \<and>
      user_image u = None)"
proof -
  have h: "provider google = ''google''" "truthy_str (nu_email bob) = Some ''b@x.com''"
    "faults world_remote_down 0 = None" "faults world_remote_down (Suc 0) = None"
    by (simp_all add: google_def bob_def world_remote_down_def world0_def)
  have g: "faults world_remote_down 2 = Some (Error ''remote store unreachable'')"
    "users world_remote_down ''b@x.com'' = None"
    "adminWhitelist world_remote_down ''b@x.com'' = None"
    by (simp_all add: world_remote_down_def world0_def)
  from signIn_remote_failure_tolerated [OF h] h g show ?thesis
    by (auto simp add: bob_def)
qed

lemma set_column_idem: "set_column v (set_column v old) = set_column v old"
  by (cases v) simp_all

lemma upsert_row_idem:
  "upsert_row (Some (upsert_row existing fresh email name img role)) fresh' email name img role
     = upsert_row existing fresh email name img role"
  by (cases existing) (simp_all add: upsert_row_def set_column_idem)

text \<open>What a Google sign-in with an email does to the local store: it fails and changes
  nothing, or it accepts and has upserted the one row.\<close>

lemma signIn_google_effect:
  assumes "provider a = ''google''" and "truthy_str (nu_email user) = Some email"
  shows "\<exists>r w'. signIn user (Some a) w = (r, w') \<and> adminWhitelist w' = adminWhitelist w \<and>
     ((\<exists>x. r = Inl x) \<and> users w' = users w \<and> nextId w' = nextId w \<or>
      r = Inr True \<and>
      users w' = (users w)(email \<mapsto> upsert_row (users w email) (nextId w) email
         (nu_name user) (nu_image user)
         (if (case adminWhitelist w email of Some e \<Rightarrow> isActive e | None \<Rightarrow> False)
          then ''ADMIN'' else ''USER'')) \<and>
      nextId w' = (if users w email = None then Suc (nextId w) else nextId w))"
  using assms
  by (auto simp add: signIn_def Let_def io_defs split: option.splits sum.splits)

text \<open>
  C8. When a sign-in has returned, running the callback again with the same arguments in
  the world the first run left (so with the same whitelist, which the callback never
  writes) leaves the table of local records, and the id generator, exactly as the first
  run left them, whether or not the calls of the second run fail. The table is keyed by
  email, so there is no second row either.
\<close>

theorem signIn_idempotent_local:
  assumes first: "signIn user account w = (Inr r, w1)"
  shows "users (snd (signIn user account w1)) = users w1 \<and>
         nextId (snd (signIn user account w1)) = nextId w1 \<and>
         adminWhitelist w1 = adminWhitelist w"
proof (cases "(if (case account of Some a \<Rightarrow> provider a = ''google'' | None \<Rightarrow> False)
               then truthy_str (nu_email user) else None)")
  case None
  then have "signIn user account w' = (Inr True, w')" for w'
    by (simp add: signIn_def resolve_def)
  from this [of w] this [of w1] first show ?thesis by simp
next
  case (Some email)
  then obtain a where a: "account = Some a" "provider a = ''google''"
    and e: "truthy_str (nu_email user) = Some email"
    by (cases account) (auto split: if_splits)
  let ?role = "\<lambda>w. if (case adminWhitelist w email of Some e \<Rightarrow> isActive e | None \<Rightarrow> False)
                   then ''ADMIN'' else ''USER''"
  let ?row = "upsert_row (users w email) (nextId w) email (nu_name user) (nu_image user) (?role w)"
  from signIn_google_effect [OF a(2) e, of w] first a(1)
  have w1: "adminWhitelist w1 = adminWhitelist w" "users w1 = (users w)(email \<mapsto> ?row)"
    by auto
  have at: "users w1 email = Some ?row"
    by (simp add: w1(2))
  from signIn_google_effect [OF a(2) e, of w1]
  obtain r2 w2 where second: "signIn user (Some a) w1 = (r2, w2)"
    and eff: "users w2 = users w1 \<and> nextId w2 = nextId w1 \<or>
      users w2 = (users w1)(email \<mapsto> upsert_row (users w1 email) (nextId w1) email
         (nu_name user) (nu_image user) (?role w1)) \<and>
      nextId w2 = (if users w1 email = None then Suc (nextId w1) else nextId w1)"
    by blast
  have "upsert_row (users w1 email) (nextId w1) email (nu_name user) (nu_image user) (?role w1)
          = ?row"
    by (simp only: at w1(1) upsert_row_idem)
  with eff at have "users w2 = users w1 \<and> nextId w2 = nextId w1"
    by (auto simp add: fun_upd_idem)
  with second a(1) w1(1) show ?thesis by simp
qed

theorem signIn_idempotent_local_witness:
  "fst (signIn bob (Some google) world0) = Inr True \<and>
   users world0 ''b@x.com'' = None \<and>
   users (snd (signIn bob (Some google) world0)) ''b@x.com'' =
     Some \<lparr>user_id = 2, user_email = ''b@x.com'', user_name = Some ''Bob'', user_image = None,
           user_role = ''USER'', user_password = None\<rparr> \<and>
   users (snd (signIn bob (Some google) (snd (signIn bob (Some google) world0)))) =
     users (snd (signIn bob (Some google) world0)) \<and>
   nextId (snd (signIn bob (Some google) (snd (signIn bob (Some google) world0)))) =
     nextId (snd (signIn bob (Some google) world0))"
proof -
  obtain w1 where r: "signIn bob (Some google) world0 = (Inr True, w1)"
    and u: "users w1 ''b@x.com'' =
      Some \<lparr>user_id = 2, user_email = ''b@x.com'', user_name = Some ''Bob'', user_image = None,
            user_role = ''USER'', user_password = None\<rparr>"
    by (simp add: signIn_def Let_def io_defs upsert_row_def bob_def google_def world0_def)
  have n: "users world0 ''b@x.com'' = None"
    by (simp add: world0_def)
  from signIn_idempotent_local [OF r] r u n show ?thesis by simp
qed

text \<open>
  C4, the failing input. A Google sign-in in a world where the remote store hands out
  its service and then fails at \<open>authenticateUser\<close>: the callback accepts, the remote
  store has been called, and \<open>disconnect\<close> is not among the calls made. The call of
  \<open>disconnect\<close> is the last statement of the \<open>try\<close> block, so the \<open>catch\<close> skips it.
\<close>

theorem signIn_lookup_failure_no_disconnect:
  "fst (signIn bob (Some google) world_remote_lookup_fails) = Inr True \<and>
   new_events world_remote_lookup_fails (snd (signIn bob (Some google) world_remote_lookup_fails)) =
     [WhitelistFindUnique ''b@x.com'', UserUpsert ''b@x.com'' (Val ''Bob'') Null ''USER'',
      GetNeonAuthService, NeonAuthenticateUser ''b@x.com'' None] \<and>
   NeonDisconnect \<notin> set (new_events world_remote_lookup_fails
      (snd (signIn bob (Some google) world_remote_lookup_fails)))"
  by (simp add: signIn_def Let_def io_defs new_events_def upsert_row_def bob_def google_def
        world_remote_lookup_fails_def world0_def)

text \<open>The sibling path: once \<open>authorize\<close> of \<open>neon-auth\<close> has obtained the service, the
  last call it makes is \<open>disconnect\<close>, on every exit, since the call stands in a
  \<open>finally\<close> block.\<close>

lemma authorize_neon_auth_disconnects:
  assumes "present credentials = Some (email, password)" and "faults w 0 = None"
  shows "last (new_events w (snd (authorize_neon_auth credentials w))) = NeonDisconnect"
  using assms
  by (auto simp add: authorize_neon_auth_def Let_def io_defs new_events_def
        split: option.splits)

text \<open>In \<open>signIn\<close> the connection is released when no call of the remote store fails.\<close>

lemma signIn_disconnects_when_remote_healthy:
  assumes "provider a = ''google''" and "truthy_str (nu_email user) = Some email"
    and "\<And>n. faults w n = None"
  shows "last (new_events w (snd (signIn user (Some a) w))) = NeonDisconnect"
  using assms
  by (auto simp add: signIn_def Let_def io_defs new_events_def split: option.splits)

section \<open>Properties of the credential providers\<close>

lemma own_messages:
  "\<not> includes_str ''Invalid credentials'' ''Cannot resolve module''"
  "\<not> includes_str ''Admin access required'' ''Cannot resolve module''"
  "\<not> includes_str ''Admin access not authorized'' ''Cannot resolve module''"
  by simp_all

text \<open>
  C6. The provider \<open>credentials\<close>. The source throws \<open>Error\<close> objects, told apart by their
  messages: \<open>Email and password are required\<close> (MissingCredentials), \<open>Invalid
  credentials\<close> (InvalidCredentials), \<open>Admin access required\<close> and \<open>Admin access not
  authorized\<close> (NotAuthorized, for the role and for the whitelist).
  \<^item> With an empty or missing email or password it throws the first, and the world is
    untouched: no call has been made.
  \<^item> Otherwise, when its four calls succeed, the checks apply in the order of the source:
    InvalidCredentials when the local record is absent, has no (or an empty) password
    hash, or the password does not match; then NotAuthorized when the role is not ADMIN;
    then NotAuthorized when the whitelist entry is absent or inactive; else the identity
    of the local record.
  \<^item> Whatever calls fail, it returns an identity only if the local record has role ADMIN
    and the whitelist entry is active.
\<close>

theorem authorize_credentials_verdicts:
  "(present credentials = None \<longrightarrow>
      authorize_credentials credentials w =
        (Inl (Error ''Email and password are required''), w)) \<and>
   (present credentials = Some (email, password) \<and>
    faults w 0 = None \<and> faults w (Suc 0) = None \<and> faults w (Suc (Suc 0)) = None \<and>
    faults w (Suc (Suc (Suc 0))) = None \<longrightarrow>
      fst (authorize_credentials credentials w) =
        (case users w email of
           None \<Rightarrow> Inl (Error ''Invalid credentials'')
         | Some u \<Rightarrow>
             (case truthy_str (nullable (user_password u)) of
                None \<Rightarrow> Inl (Error ''Invalid credentials'')
              | Some hash \<Rightarrow>
                  if \<not> bcryptCompare w password hash then Inl (Error ''Invalid credentials'')
                  else if user_role u \<noteq> ''ADMIN'' then Inl (Error ''Admin access required'')
                  else (case adminWhitelist w email of
                          None \<Rightarrow> Inl (Error ''Admin access not authorized'')
                        | Some a \<Rightarrow>
                            if isActive a
                            then Inr \<lparr>nu_id = user_id u, nu_email = Val (user_email u),
                                   nu_name = nullable (user_name u),
                                   nu_image = nullable (user_image u),
                                   neonRole = None, nu_permissions = None\<rparr>
                            else Inl (Error ''Admin access not authorized''))))) \<and>
   (\<forall>u' w'. authorize_credentials credentials w = (Inr u', w') \<longrightarrow>
      (\<exists>email password u a. present credentials = Some (email, password) \<and>
         users w email = Some u \<and> user_role u = ''ADMIN'' \<and>
         adminWhitelist w email = Some a \<and> isActive a))"
proof (intro conjI impI allI)
  assume "present credentials = None"
  then show "authorize_credentials credentials w =
        (Inl (Error ''Email and password are required''), w)"
    by (simp add: authorize_credentials_def throw_def)
next
  assume "present credentials = Some (email, password) \<and>
    faults w 0 = None \<and> faults w (Suc 0) = None \<and> faults w (Suc (Suc 0)) = None \<and>
    faults w (Suc (Suc (Suc 0))) = None"
  then show "fst (authorize_credentials credentials w) =
        (case users w email of
           None \<Rightarrow> Inl (Error ''Invalid credentials'')
         | Some u \<Rightarrow>
             (case truthy_str (nullable (user_password u)) of
                None \<Rightarrow> Inl (Error ''Invalid credentials'')
              | Some hash \<Rightarrow>
                  if \<not> bcryptCompare w password hash then Inl (Error ''Invalid credentials'')
                  else if user_role u \<noteq> ''ADMIN'' then Inl (Error ''Admin access required'')
                  else (case adminWhitelist w email of
                          None \<Rightarrow> Inl (Error ''Admin access not authorized'')
                        | Some a \<Rightarrow>
                            if isActive a
                            then Inr \<lparr>nu_id = user_id u, nu_email = Val (user_email u),
                                   nu_name = nullable (user_name u),
                                   nu_image = nullable (user_image u),
                                   neonRole = None, nu_permissions = None\<rparr>
                            else Inl (Error ''Admin access not authorized''))))"
    using own_messages
    by (simp add: authorize_credentials_def io_defs Let_def split: option.splits)
next
  fix u' w'
  assume "authorize_credentials credentials w = (Inr u', w')"
  then show "\<exists>email password u a. present credentials = Some (email, password) \<and>
         users w email = Some u \<and> user_role u = ''ADMIN'' \<and>
         adminWhitelist w email = Some a \<and> isActive a"
    by (auto simp add: authorize_credentials_def io_defs Let_def
          split: option.splits sum.splits if_splits exn.splits prod.splits)
qed

theorem authorize_credentials_verdicts_witness:
  "present (Some creds_empty) = None \<and>
   authorize_credentials (Some creds_empty) world0 =
     (Inl (Error ''Email and password are required''), world0) \<and>
   present (Some creds_admin) = Some (''a@x.com'', ''secret'') \<and>
   fst (authorize_credentials (Some creds_admin) world0) =
     Inr \<lparr>nu_id = 1, nu_email = Val ''a@x.com'', nu_name = Val ''Ada'', nu_image = Null,
          neonRole = None, nu_permissions = None\<rparr> \<and>
   fst (authorize_credentials (Some creds_admin) world_revoked) =
     Inl (Error ''Admin access not authorized'') \<and>
   fst (authorize_credentials (Some creds_user) world0) = Inl (Error ''Invalid credentials'')"
proof -
  have p: "present (Some creds_empty) = None"
    "present (Some creds_admin) = Some (''a@x.com'', ''secret'')"
    "present (Some creds_user) = Some (''u@x.com'', ''hunter2'')"
    by (simp_all add: present_def creds_empty_def creds_admin_def creds_user_def)
  have f: "faults world0 n = None" "faults world_revoked n = None" for n
    by (simp_all add: world0_def world_revoked_def)
  from authorize_credentials_verdicts
         [where credentials = "Some creds_empty" and w = world0]
       authorize_credentials_verdicts
         [where credentials = "Some creds_admin" and w = world0
            and email = "''a@x.com''" and password = "''secret''"]
       authorize_credentials_verdicts
         [where credentials = "Some creds_admin" and w = world_revoked
            and email = "''a@x.com''" and password = "''secret''"]
       authorize_credentials_verdicts
         [where credentials = "Some creds_user" and w = world0
            and email = "''u@x.com''" and password = "''hunter2''"]
       p f
  show ?thesis
    by (simp add: world0_def world_revoked_def admin_row_def active_entry_def
          inactive_entry_def)
qed

text \<open>
  C7. The provider \<open>neon-auth\<close>.
  \<^item> With an empty or missing email or password it throws \<open>Email and password are
    required\<close>, and the world is untouched: no call has been made.
  \<^item> Otherwise, when its three calls succeed (obtaining the service, \<open>authenticateUser\<close>
    and the \<open>disconnect\<close> of the \<open>finally\<close> block), it throws \<open>Invalid credentials\<close> when
    the remote store returns no match, \<open>Admin access required\<close> when the role of the
    returned record is not ADMIN, and else returns the identity of the returned record.
\<close>

theorem authorize_neon_auth_verdicts:
  "(present credentials = None \<longrightarrow>
      authorize_neon_auth credentials w = (Inl (Error ''Email and password are required''), w)) \<and>
   (present credentials = Some (email, password) \<and>
    faults w 0 = None \<and> faults w (Suc 0) = None \<and> faults w (Suc (Suc 0)) = None \<longrightarrow>
      fst (authorize_neon_auth credentials w) =
        (case neonAnswer w email (Some password) of
           None \<Rightarrow> Inl (Error ''Invalid credentials'')
         | Some n \<Rightarrow>
             if neon_role n = ''ADMIN''
             then Inr \<lparr>nu_id = neon_id n, nu_email = Val (neon_email n),
                    nu_name = nullable (neon_name n), nu_image = Null,
                    neonRole = Some (databaseRole n), nu_permissions = Some (permissions n)\<rparr>
             else Inl (Error ''Admin access required'')))"
  by (auto simp add: authorize_neon_auth_def io_defs Let_def split: option.splits)

theorem authorize_neon_auth_verdicts_witness:
  "present None = None \<and>
   authorize_neon_auth None world_neon =
     (Inl (Error ''Email and password are required''), world_neon) \<and>
   present (Some creds_admin) = Some (''a@x.com'', ''secret'') \<and>
   fst (authorize_neon_auth (Some creds_admin) world_neon) =
     Inr \<lparr>nu_id = 11, nu_email = Val ''a@x.com'', nu_name = Val ''Ada'', nu_image = Null,
          neonRole = Some ''db_admin'', nu_permissions = Some ''all''\<rparr> \<and>
   fst (authorize_neon_auth (Some creds_user) world_neon) =
     Inl (Error ''Admin access required'') \<and>
   fst (authorize_neon_auth (Some creds_admin) world0) = Inl (Error ''Invalid credentials'')"
proof -
  have p: "present None = None"
    "present (Some creds_admin) = Some (''a@x.com'', ''secret'')"
    "present (Some creds_user) = Some (''u@x.com'', ''hunter2'')"
    by (simp_all add: present_def creds_admin_def creds_user_def)
  have f: "faults world0 n = None" "faults world_neon n = None" for n
    by (simp_all add: world0_def world_neon_def)
  from authorize_neon_auth_verdicts [where credentials = None and w = world_neon]
       authorize_neon_auth_verdicts
         [where credentials = "Some creds_admin" and w = world_neon
            and email = "''a@x.com''" and password = "''secret''"]
       authorize_neon_auth_verdicts
         [where credentials = "Some creds_user" and w = world_neon
            and email = "''u@x.com''" and password = "''hunter2''"]
       authorize_neon_auth_verdicts
         [where credentials = "Some creds_admin" and w = world0
            and email = "''a@x.com''" and password = "''secret''"]
       p f
  show ?thesis
    by (simp add: world0_def world_neon_def neon_admin_def)
qed

section \<open>The keys of the store accesses\<close>

text \<open>How the log grows, by the structure of a function.\<close>

lemma emits_resolve: "emits P (resolve x)"
  by (simp add: emits_def resolve_def)

lemma emits_throw: "emits P (throw e)"
  by (simp add: emits_def throw_def)

lemma emits_call: "P ev \<Longrightarrow> emits P (call ev)"
  by (simp add: emits_def call_def Let_def split: option.splits)

lemma emits_await:
  assumes m: "emits P m" and f: "\<And>x. emits P (f x)"
  shows "emits P (await m f)"
  unfolding emits_def
proof
  fix w
  obtain r w1 where mw: "m w = (r, w1)" by (cases "m w")
  from m obtain evs where l1: "log w1 = log w @ evs" "list_all P evs"
    unfolding emits_def using mw by (metis snd_conv)
  show "\<exists>evs. log (snd (await m f w)) = log w @ evs \<and> list_all P evs"
  proof (cases r)
    case (Inl e)
    with mw l1 show ?thesis by (simp add: await_def)
  next
    case (Inr x)
    from f [of x] obtain evs2 where l2: "log (snd (f x w1)) = log w1 @ evs2" "list_all P evs2"
      unfolding emits_def by blast
    with mw l1 Inr show ?thesis by (simp add: await_def)
  qed
qed

lemma emits_try_catch:
  assumes m: "emits P m" and h: "\<And>e. emits P (h e)"
  shows "emits P (try_catch m h)"
  unfolding emits_def
proof
  fix w
  obtain r w1 where mw: "m w = (r, w1)" by (cases "m w")
  from m obtain evs where l1: "log w1 = log w @ evs" "list_all P evs"
    unfolding emits_def using mw by (metis snd_conv)
  show "\<exists>evs. log (snd (try_catch m h w)) = log w @ evs \<and> list_all P evs"
  proof (cases r)
    case (Inl e)
    from h [of e] obtain evs2 where l2: "log (snd (h e w1)) = log w1 @ evs2" "list_all P evs2"
      unfolding emits_def by blast
    with mw l1 Inl show ?thesis by (simp add: try_catch_def)
  next
    case (Inr x)
    with mw l1 show ?thesis by (simp add: try_catch_def)
  qed
qed

lemma emits_try_finally:
  assumes m: "emits P m" and fin: "emits P fin"
  shows "emits P (try_finally m fin)"
  unfolding emits_def
proof
  fix w
  obtain r w1 where mw: "m w = (r, w1)" by (cases "m w")
  from m obtain evs where l1: "log w1 = log w @ evs" "list_all P evs"
    unfolding emits_def using mw by (metis snd_conv)
  obtain r2 w2 where fw: "fin w1 = (r2, w2)" by (cases "fin w1")
  from fin obtain evs2 where l2: "log w2 = log w1 @ evs2" "list_all P evs2"
    unfolding emits_def using fw by (metis snd_conv)
  from mw fw l1 l2 show "\<exists>evs. log (snd (try_finally m fin w)) = log w @ evs \<and> list_all P evs"
    by (cases r2) (simp_all add: try_finally_def)
qed

lemma emits_silent: "(\<And>w. log (snd (g w)) = log w) \<Longrightarrow> emits P g"
  by (simp add: emits_def)

lemma emits_user_findUnique: "P (UserFindUnique email) \<Longrightarrow> emits P (user_findUnique email)"
  unfolding user_findUnique_def
  by (intro emits_await emits_call emits_silent) simp_all

lemma emits_adminWhitelist_findUnique:
  "P (WhitelistFindUnique email) \<Longrightarrow> emits P (adminWhitelist_findUnique email)"
  unfolding adminWhitelist_findUnique_def
  by (intro emits_await emits_call emits_silent) simp_all

lemma emits_user_upsert:
  "P (UserUpsert email name img role) \<Longrightarrow> emits P (user_upsert email name img role)"
  unfolding user_upsert_def
  by (intro emits_await emits_call emits_silent) (simp_all add: Let_def)

lemma emits_neon_authenticateUser:
  "P (NeonAuthenticateUser email password) \<Longrightarrow> emits P (neon_authenticateUser email password)"
  unfolding neon_authenticateUser_def
  by (intro emits_await emits_call emits_silent) simp_all

lemma emits_bcrypt_compare:
  "P (BcryptCompare password hash) \<Longrightarrow> emits P (bcrypt_compare password hash)"
  unfolding bcrypt_compare_def
  by (intro emits_await emits_call emits_silent) simp_all

lemmas emits_intros = emits_resolve emits_throw emits_call emits_await
  emits_try_catch emits_try_finally emits_user_findUnique emits_adminWhitelist_findUnique
  emits_user_upsert emits_neon_authenticateUser emits_bcrypt_compare

lemma emits_new_events: "emits P m \<Longrightarrow> list_all P (new_events w (snd (m w)))"
  unfolding emits_def new_events_def
proof -
  assume "\<forall>w. \<exists>evs. log (snd (m w)) = log w @ evs \<and> list_all P evs"
  then obtain evs where "log (snd (m w)) = log w @ evs" "list_all P evs" by blast
  then show "list_all P (drop (length (log w)) (log (snd (m w))))" by simp
qed

lemma emits_credentials:
  assumes "present credentials = Some (email, password)"
  shows "emits (\<lambda>ev. event_key ev \<in> {None, Some email}) (authorize_credentials credentials)"
  unfolding authorize_credentials_def import_bcryptjs_def
  using assms
  by (auto intro!: emits_intros split: option.splits exn.splits)

lemma emits_signIn:
  assumes "truthy_str (nu_email user) = Some email"
  shows "emits (\<lambda>ev. event_key ev \<in> {None, Some email}) (signIn user account)"
  unfolding signIn_def getNeonAuthService_def neon_createUser_def neon_disconnect_def Let_def
  using assms
  by (auto intro!: emits_intros split: option.splits)

lemma emits_neon:
  assumes "present credentials = Some (email, password)"
  shows "emits (\<lambda>ev. event_key ev \<in> {None, Some email}) (authorize_neon_auth credentials)"
  unfolding authorize_neon_auth_def getNeonAuthService_def neon_disconnect_def
  using assms
  by (auto intro!: emits_intros split: option.splits)

lemma emits_jwt:
  assumes "truthy_str (tok_email tok) = Some email"
  shows "emits (\<lambda>ev. event_key ev \<in> {None, Some email}) (jwt tok user)"
  unfolding jwt_def Let_def
  using jwt_token_email [OF assms, of user]
  by (auto intro!: emits_intros split: option.splits)

text \<open>
  C9, counterexample. No case normalization is applied: a refresh for \<open>A@x.com\<close> queries
  both tables with the key \<open>A@x.com\<close>, a refresh for \<open>a@x.com\<close> with the key \<open>a@x.com\<close>,
  two different keys for two emails that differ in letter case only.
\<close>

theorem case_normalization_counterexample:
  "new_events world0 (snd (jwt token_upper None world0)) =
     [UserFindUnique ''A@x.com'', WhitelistFindUnique ''A@x.com''] \<and>
   new_events world0 (snd (jwt token_a None world0)) =
     [UserFindUnique ''a@x.com'', WhitelistFindUnique ''a@x.com''] \<and>
   UserFindUnique ''A@x.com'' \<noteq> UserFindUnique ''a@x.com''"
  by (simp add: jwt_def Let_def io_defs new_events_def token_upper_def token_a_def world0_def)

text \<open>
  C9, amended. Each of the four functions uses the email it was given, unchanged, as the
  key of every store access it makes (the lookups of the two tables, the upsert, the
  remote lookup and create), whatever calls fail; the only other calls it makes are the
  ones that carry no key.
\<close>

theorem store_keys_verbatim:
  "(present credentials = Some (email, password) \<longrightarrow>
      keyed_by email (new_events w (snd (authorize_neon_auth credentials w))) \<and>
      keyed_by email (new_events w (snd (authorize_credentials credentials w)))) \<and>
   (truthy_str (nu_email user) = Some email \<longrightarrow>
      keyed_by email (new_events w (snd (signIn user account w)))) \<and>
   (truthy_str (tok_email tok) = Some email \<longrightarrow>
      keyed_by email (new_events w (snd (jwt tok usr w))))"
  unfolding keyed_by_def
  by (intro conjI impI emits_new_events emits_neon emits_credentials emits_signIn emits_jwt)

theorem store_keys_verbatim_witness:
  "present (Some creds_admin) = Some (''a@x.com'', ''secret'') \<and>
   truthy_str (nu_email bob) = Some ''b@x.com'' \<and>
   truthy_str (tok_email token_upper) = Some ''A@x.com'' \<and>
   keyed_by ''a@x.com'' (new_events world0 (snd (authorize_neon_auth (Some creds_admin) world0))) \<and>
   keyed_by ''a@x.com'' (new_events world0 (snd (authorize_credentials (Some creds_admin) world0))) \<and>
   keyed_by ''b@x.com'' (new_events world0 (snd (signIn bob (Some google) world0))) \<and>
   keyed_by ''A@x.com'' (new_events world0 (snd (jwt token_upper None world0))) \<and>
   new_events world0 (snd (signIn bob (Some google) world0)) =
     [WhitelistFindUnique ''b@x.com'', UserUpsert ''b@x.com'' (Val ''Bob'') Null ''USER'',
      GetNeonAuthService, NeonAuthenticateUser ''b@x.com'' None,
      NeonCreateUser ''b@x.com'' (Some ''Bob'') ''USER'', NeonDisconnect]"
proof -
  have h: "present (Some creds_admin) = Some (''a@x.com'', ''secret'')"
    "truthy_str (nu_email bob) = Some ''b@x.com''"
    "truthy_str (tok_email token_upper) = Some ''A@x.com''"
    by (simp_all add: present_def creds_admin_def bob_def token_upper_def token_a_def)
  have l: "new_events world0 (snd (signIn bob (Some google) world0)) =
     [WhitelistFindUnique ''b@x.com'', UserUpsert ''b@x.com'' (Val ''Bob'') Null ''USER'',
      GetNeonAuthService, NeonAuthenticateUser ''b@x.com'' None,
      NeonCreateUser ''b@x.com'' (Some ''Bob'') ''USER'', NeonDisconnect]"
    by (simp add: signIn_def Let_def io_defs new_events_def upsert_row_def bob_def google_def
          world0_def)
  from store_keys_verbatim
         [where credentials = "Some creds_admin" and email = "''a@x.com''"
            and password = "''secret''" and w = world0]
       store_keys_verbatim
         [where user = bob and email = "''b@x.com''" and account = "Some google"
            and w = world0]
       store_keys_verbatim
         [where tok = token_upper and email = "''A@x.com''" and usr = None and w = world0]
       h l
  show ?thesis by simp
qed

end
